theory Spec2Isabelle
  imports Main
begin

section \<open>Reactive cells\<close>

text \<open>
  The services keep their state in writable signals (\<^verbatim>\<open>signal<boolean>(false)\<close>).
  A signal holds its current value and a version counter. \<^verbatim>\<open>.set(v)\<close> compares the
  new value with the current one and does nothing when they are the same; otherwise it
  stores the value and advances the version, which is what a derived (\<^verbatim>\<open>computed\<close>)
  cell looks at to decide whether it has to run its derivation again.
\<close>

record 'a WritableSignal =
  current :: 'a
  version :: nat

definition signal :: "'a \<Rightarrow> 'a WritableSignal" where
  "signal v = \<lparr>current = v, version = 0\<rparr>"

definition set_signal :: "'a \<Rightarrow> 'a WritableSignal \<Rightarrow> 'a WritableSignal" where
  "set_signal v sg =
     (if current sg = v then sg else \<lparr>current = v, version = Suc (version sg)\<rparr>)"

section \<open>PwaInstallService (pwa-install.service.ts)\<close>

text \<open>
  The object of a \<^verbatim>\<open>beforeinstallprompt\<close> event is opaque to the service: it is
  stored, \<^verbatim>\<open>prompt()\<close> is called on it and its \<^verbatim>\<open>userChoice\<close> promise is awaited.
  The model keeps its identity only.
\<close>

datatype BeforeInstallPromptEvent = BeforeInstallPromptEvent nat

text \<open>
  What the constructor reads from the host: \<^verbatim>\<open>matchMedia('(display-mode: standalone)').matches\<close>
  and \<^verbatim>\<open>navigator.standalone\<close>, a property that only one browser family defines
  (\<open>None\<close> is \<^verbatim>\<open>undefined\<close>).
\<close>

record Window =
  displayModeStandalone :: bool
  navigatorStandalone :: "bool option"

record PwaInstallService =
  isInstalled :: "bool WritableSignal"
  canInstall :: "bool WritableSignal"
  deferredPrompt :: "BeforeInstallPromptEvent option"

text \<open>The lines the service writes to the console, and what it does to the platform.\<close>

datatype console_msg =
    PromptAvailable
  | PwaInstalled
  | NoPromptAvailable
  | UserChoiceLogged bool
  | BannerClosed

datatype effect =
    PreventDefault BeforeInstallPromptEvent
  | Prompt BeforeInstallPromptEvent
  | ConsoleLog console_msg
  | Returned bool

text \<open>The field initialisers: both signals false, no event stored.\<close>

definition PwaInstallService_fields :: PwaInstallService where
  "PwaInstallService_fields =
     \<lparr>isInstalled = signal False, canInstall = signal False, deferredPrompt = None\<rparr>"

text \<open>\<^verbatim>\<open>checkIfInstalled\<close>: \<^verbatim>\<open>isStandalone || isIOS\<close>, where \<^verbatim>\<open>isIOS\<close> is
  \<^verbatim>\<open>navigator.standalone === true\<close>.\<close>

definition checkIfInstalled :: "Window \<Rightarrow> PwaInstallService \<Rightarrow> PwaInstallService" where
  "checkIfInstalled w s =
     (let isStandalone = displayModeStandalone w;
          isIOS = (navigatorStandalone w = Some True)
      in s\<lparr>isInstalled := set_signal (isStandalone \<or> isIOS) (isInstalled s)\<rparr>)"

text \<open>\<^verbatim>\<open>listenForInstallPrompt\<close> registers two listeners and changes no field; the
  listeners are the two functions below. The constructor is the check followed by the
  registration.\<close>

definition PwaInstallService_new :: "Window \<Rightarrow> PwaInstallService" where
  "PwaInstallService_new w = checkIfInstalled w PwaInstallService_fields"

text \<open>The \<^verbatim>\<open>beforeinstallprompt\<close> listener.\<close>

definition onBeforeInstallPrompt ::
  "BeforeInstallPromptEvent \<Rightarrow> PwaInstallService \<Rightarrow> PwaInstallService \<times> effect list" where
  "onBeforeInstallPrompt e s =
     (let s1 = s\<lparr>deferredPrompt := Some e\<rparr>;
          s2 = s1\<lparr>canInstall := set_signal True (canInstall s1)\<rparr>
      in (s2, [PreventDefault e, ConsoleLog PromptAvailable]))"

text \<open>The \<^verbatim>\<open>appinstalled\<close> listener.\<close>

definition onAppInstalled :: "PwaInstallService \<Rightarrow> PwaInstallService \<times> effect list" where
  "onAppInstalled s =
     (let s1 = s\<lparr>isInstalled := set_signal True (isInstalled s)\<rparr>;
          s2 = s1\<lparr>canInstall := set_signal False (canInstall s1)\<rparr>;
          s3 = s2\<lparr>deferredPrompt := None\<rparr>
      in (s3, [ConsoleLog PwaInstalled]))"

text \<open>
  \<^verbatim>\<open>showInstallPrompt\<close> is an \<^verbatim>\<open>async\<close> function with one \<^verbatim>\<open>await\<close>. It runs in
  two turns of the event loop: the part up to the \<^verbatim>\<open>await\<close>, which either returns
  \<^verbatim>\<open>false\<close> at once or calls \<^verbatim>\<open>prompt()\<close> and suspends on the \<^verbatim>\<open>userChoice\<close> of
  the stored event; and the part after it, which runs when that promise resolves with an
  outcome. Other listeners may run between the two.
\<close>

datatype prompt_step = Resolved bool | Awaiting BeforeInstallPromptEvent

definition showInstallPrompt ::
  "PwaInstallService \<Rightarrow> prompt_step \<times> PwaInstallService \<times> effect list" where
  "showInstallPrompt s =
     (case deferredPrompt s of
        None \<Rightarrow> (Resolved False, s, [ConsoleLog NoPromptAvailable])
      | Some e \<Rightarrow> (Awaiting e, s, [Prompt e]))"

definition showInstallPrompt_resume ::
  "string \<Rightarrow> PwaInstallService \<Rightarrow> bool \<times> PwaInstallService \<times> effect list" where
  "showInstallPrompt_resume outcome s =
     (let s1 = s\<lparr>deferredPrompt := None\<rparr>;
          s2 = s1\<lparr>canInstall := set_signal False (canInstall s1)\<rparr>
      in if outcome = ''accepted''
         then (True, s2\<lparr>isInstalled := set_signal True (isInstalled s2)\<rparr>,
               [ConsoleLog (UserChoiceLogged True)])
         else (False, s2, [ConsoleLog (UserChoiceLogged False)]))"

subsection \<open>The service in the event loop\<close>

text \<open>
  One turn of the event loop is one of: the platform delivers \<^verbatim>\<open>beforeinstallprompt\<close>
  or \<^verbatim>\<open>appinstalled\<close>; somebody calls \<^verbatim>\<open>showInstallPrompt()\<close>; the \<^verbatim>\<open>userChoice\<close>
  promise of an event resolves, which resumes, in call order, every call suspended on it.
  The state of the whole is the service, the events that suspended calls wait on, and
  everything done so far.
\<close>

datatype event =
    BeforeInstallPrompt BeforeInstallPromptEvent
  | AppInstalled
  | ShowInstallPrompt
  | UserChoice BeforeInstallPromptEvent string

record system =
  service :: PwaInstallService
  awaiting :: "BeforeInstallPromptEvent list"
  effects :: "effect list"

fun settle ::
  "BeforeInstallPromptEvent \<Rightarrow> string \<Rightarrow> BeforeInstallPromptEvent list \<Rightarrow>
   PwaInstallService \<times> effect list \<Rightarrow> PwaInstallService \<times> effect list" where
  "settle e outcome [] acc = acc"
| "settle e outcome (p # ps) (s, tr) =
     (if p = e
      then (case showInstallPrompt_resume outcome s of
              (r, s', effs) \<Rightarrow> settle e outcome ps (s', tr @ effs @ [Returned r]))
      else settle e outcome ps (s, tr))"

fun step :: "event \<Rightarrow> system \<Rightarrow> system" where
  "step (BeforeInstallPrompt e) sys =
     (case onBeforeInstallPrompt e (service sys) of
        (s', effs) \<Rightarrow> sys\<lparr>service := s', effects := effects sys @ effs\<rparr>)"
| "step AppInstalled sys =
     (case onAppInstalled (service sys) of
        (s', effs) \<Rightarrow> sys\<lparr>service := s', effects := effects sys @ effs\<rparr>)"
| "step ShowInstallPrompt sys =
     (case showInstallPrompt (service sys) of
        (Resolved r, s', effs) \<Rightarrow>
          sys\<lparr>service := s', effects := effects sys @ effs @ [Returned r]\<rparr>
      | (Awaiting e, s', effs) \<Rightarrow>
          sys\<lparr>service := s', awaiting := awaiting sys @ [e],
              effects := effects sys @ effs\<rparr>)"
| "step (UserChoice e outcome) sys =
     (case settle e outcome (awaiting sys) (service sys, effects sys) of
        (s', tr) \<Rightarrow>
          sys\<lparr>service := s', awaiting := filter (\<lambda>p. p \<noteq> e) (awaiting sys),
              effects := tr\<rparr>)"

fun run :: "event list \<Rightarrow> system \<Rightarrow> system" where
  "run [] sys = sys"
| "run (ev # evs) sys = run evs (step ev sys)"

definition boot :: "Window \<Rightarrow> system" where
  "boot w = \<lparr>service = PwaInstallService_new w, awaiting = [], effects = []\<rparr>"

section \<open>InstallBannerComponent\<close>

text \<open>\<^verbatim>\<open>localStorage\<close>: \<^verbatim>\<open>getItem\<close> gives \<^verbatim>\<open>null\<close> (\<open>None\<close>) for a key that is
  not there.\<close>

type_synonym Storage = "string \<rightharpoonup> string"

definition getItem :: "Storage \<Rightarrow> string \<Rightarrow> string option" where
  "getItem ls k = ls k"

definition setItem :: "string \<Rightarrow> string \<Rightarrow> Storage \<Rightarrow> Storage" where
  "setItem k v ls = ls(k \<mapsto> v)"

text \<open>The function handed to \<^verbatim>\<open>computed\<close>: the derivation of \<^verbatim>\<open>showBanner\<close>.\<close>

definition showBanner_computation :: "PwaInstallService \<Rightarrow> Storage \<Rightarrow> bool" where
  "showBanner_computation s ls =
     (let dismissed = (getItem ls ''install-banner-dismissed'' = Some ''true'')
      in \<not> current (isInstalled s) \<and> current (canInstall s) \<and> \<not> dismissed)"

text \<open>
  \<^verbatim>\<open>showBanner\<close> itself is the \<^verbatim>\<open>computed\<close> cell. A computed cell is lazy and
  memoised: the first read runs the derivation and remembers the result together with the
  version of every signal the derivation read; a later read runs the derivation again
  only when one of those signals has a different version, and otherwise answers from
  memory. The derivation reads \<^verbatim>\<open>isInstalled()\<close> always and \<^verbatim>\<open>canInstall()\<close> only when
  \<^verbatim>\<open>!isInstalled()\<close> was true (\<^verbatim>\<open>&&\<close> stops at the first false operand).
  \<^verbatim>\<open>localStorage\<close> is not a signal, so a write to it is not seen by the cell.
\<close>

record computed_node =
  cached :: bool
  seen_isInstalled :: nat
  seen_canInstall :: "nat option"

record InstallBannerComponent =
  showBanner_node :: "computed_node option"

definition InstallBannerComponent_new :: InstallBannerComponent where
  "InstallBannerComponent_new = \<lparr>showBanner_node = None\<rparr>"

definition recompute :: "PwaInstallService \<Rightarrow> Storage \<Rightarrow> computed_node" where
  "recompute s ls =
     \<lparr>cached = showBanner_computation s ls,
      seen_isInstalled = version (isInstalled s),
      seen_canInstall =
        (if current (isInstalled s) then None else Some (version (canInstall s)))\<rparr>"

definition producers_changed :: "PwaInstallService \<Rightarrow> computed_node \<Rightarrow> bool" where
  "producers_changed s n =
     (version (isInstalled s) \<noteq> seen_isInstalled n \<or>
      (case seen_canInstall n of
         None \<Rightarrow> False
       | Some v \<Rightarrow> version (canInstall s) \<noteq> v))"

definition showBanner ::
  "InstallBannerComponent \<Rightarrow> PwaInstallService \<Rightarrow> Storage \<Rightarrow> bool \<times> InstallBannerComponent" where
  "showBanner c s ls =
     (case showBanner_node c of
        None \<Rightarrow>
          (let n = recompute s ls in (cached n, c\<lparr>showBanner_node := Some n\<rparr>))
      | Some n \<Rightarrow>
          if producers_changed s n
          then (let n' = recompute s ls in (cached n', c\<lparr>showBanner_node := Some n'\<rparr>))
          else (cached n, c))"

definition dismiss :: "Storage \<Rightarrow> Storage \<times> effect list" where
  "dismiss ls = (setItem ''install-banner-dismissed'' ''true'' ls, [ConsoleLog BannerClosed])"

section \<open>PwaNotificationService (pwa-notification.service.ts)\<close>

type_synonym js_error = string

datatype NotificationPermission = Granted | Denied | Default

datatype PushSubscription = PushSubscription string

text \<open>
  What the platform answers: whether \<^verbatim>\<open>'Notification' in window\<close>, what
  \<^verbatim>\<open>Notification.requestPermission()\<close> settles to, and what
  \<^verbatim>\<open>swPush.requestSubscription({serverPublicKey})\<close> settles to for a key (\<open>Inl\<close> is a
  rejection).
\<close>

record Platform =
  notificationInWindow :: bool
  permissionResponse :: "js_error + NotificationPermission"
  subscriptionResponse :: "string \<Rightarrow> js_error + PushSubscription"

record SwPush =
  isEnabled :: bool

text \<open>The class has one field, the injected \<^verbatim>\<open>SwPush\<close>.\<close>

record PwaNotificationService =
  swPush :: SwPush

datatype notif_msg =
    NotificationsUnsupported
  | ServiceWorkerDisabled
  | UserRejected
  | SubscriptionSucceeded PushSubscription
  | SubscriptionError js_error

datatype notif_effect =
    NotificationRequestPermission
  | RequestSubscription string
  | Console notif_msg

definition requestPermission :: "Platform \<Rightarrow> (js_error + bool) \<times> notif_effect list" where
  "requestPermission env =
     (if \<not> notificationInWindow env
      then (Inr False, [Console NotificationsUnsupported])
      else (case permissionResponse env of
              Inl err \<Rightarrow> (Inl err, [NotificationRequestPermission])
            | Inr permission \<Rightarrow> (Inr (permission = Granted), [NotificationRequestPermission])))"

text \<open>Everything after the enabled check is inside \<^verbatim>\<open>try\<close>: a rejection of either
  promise ends in the \<^verbatim>\<open>catch\<close>, which logs it. The function returns nothing and
  assigns to no field; the state it is given is the state it leaves.\<close>

definition subscribeToNotifications ::
  "PwaNotificationService \<Rightarrow> Platform \<Rightarrow> string \<Rightarrow> PwaNotificationService \<times> notif_effect list" where
  "subscribeToNotifications this env vapidPublicKey =
     (if \<not> isEnabled (swPush this)
      then (this, [Console ServiceWorkerDisabled])
      else (case requestPermission env of
              (Inl err, effs) \<Rightarrow> (this, effs @ [Console (SubscriptionError err)])
            | (Inr hasPermission, effs) \<Rightarrow>
                if \<not> hasPermission
                then (this, effs @ [Console UserRejected])
                else (case subscriptionResponse env vapidPublicKey of
                        Inl err \<Rightarrow>
                          (this, effs @ [RequestSubscription vapidPublicKey,
                                         Console (SubscriptionError err)])
                      | Inr subscription \<Rightarrow>
                          (this, effs @ [RequestSubscription vapidPublicKey,
                                         Console (SubscriptionSucceeded subscription)]))))"

section \<open>Vocabulary of the properties\<close>

text \<open>An offer event; the resolution of the \<^verbatim>\<open>userChoice\<close> of a given event.\<close>

fun is_offer :: "event \<Rightarrow> bool" where
  "is_offer (BeforeInstallPrompt e) = True"
| "is_offer ev = False"

fun resolves :: "BeforeInstallPromptEvent \<Rightarrow> event \<Rightarrow> bool" where
  "resolves e (UserChoice e' outcome) = (e' = e)"
| "resolves e ev = False"

text \<open>\<^verbatim>\<open>canInstall\<close> is true exactly when an event is stored.\<close>

definition handle_inv :: "PwaInstallService \<Rightarrow> bool" where
  "handle_inv s = (current (canInstall s) = (deferredPrompt s \<noteq> None))"

definition installed_and_installable :: "PwaInstallService \<Rightarrow> bool" where
  "installed_and_installable s = (current (isInstalled s) \<and> current (canInstall s))"

text \<open>A sequence of turns in which the platform delivers an offer only while
  \<^verbatim>\<open>isInstalled\<close> is false.\<close>

fun offers_while_not_installed :: "event list \<Rightarrow> system \<Rightarrow> bool" where
  "offers_while_not_installed [] sys = True"
| "offers_while_not_installed (ev # evs) sys =
     ((is_offer ev \<longrightarrow> \<not> current (isInstalled (service sys))) \<and>
      offers_while_not_installed evs (step ev sys))"

section \<open>The install service: what each operation leaves behind\<close>

lemma set_signal_current [simp]: "current (set_signal v sg) = v"
  by (simp add: set_signal_def)

lemma resume_deferredPrompt:
  "deferredPrompt (fst (snd (showInstallPrompt_resume outcome s))) = None"
  by (simp add: showInstallPrompt_resume_def Let_def)

lemma resume_canInstall:
  "\<not> current (canInstall (fst (snd (showInstallPrompt_resume outcome s))))"
  by (simp add: showInstallPrompt_resume_def Let_def)

lemma service_step:
  "service (step (BeforeInstallPrompt e) sys) = fst (onBeforeInstallPrompt e (service sys))"
  "service (step AppInstalled sys) = fst (onAppInstalled (service sys))"
  "service (step ShowInstallPrompt sys) = service sys"
  "service (step (UserChoice e outcome) sys) =
     fst (settle e outcome (awaiting sys) (service sys, effects sys))"
  by (simp_all add: showInstallPrompt_def split: prod.splits option.splits)

lemma run_append: "run (xs @ ys) sys = run ys (run xs sys)"
  by (induction xs arbitrary: sys) auto

text \<open>Resuming suspended calls: a property that every resumption establishes, or keeps,
  holds after all of them. The three inductions below have the same shape.\<close>

lemma settle_deferredPrompt_None:
  "deferredPrompt s = None \<Longrightarrow> deferredPrompt (fst (settle e outcome ps (s, tr))) = None"
proof (induction ps arbitrary: s tr)
  case Nil
  then show ?case by simp
next
  case (Cons p ps)
  show ?case
  proof (cases "p = e")
    case True
    obtain r s' effs where R: "showInstallPrompt_resume outcome s = (r, s', effs)"
      by (cases "showInstallPrompt_resume outcome s") auto
    with resume_deferredPrompt[of outcome s] have "deferredPrompt s' = None" by simp
    with Cons.IH True R show ?thesis by simp
  next
    case False
    with Cons show ?thesis by simp
  qed
qed

lemma settle_member_deferredPrompt:
  "e \<in> set ps \<Longrightarrow> deferredPrompt (fst (settle e outcome ps (s, tr))) = None"
proof (induction ps arbitrary: s tr)
  case Nil
  then show ?case by simp
next
  case (Cons p ps)
  show ?case
  proof (cases "p = e")
    case True
    obtain r s' effs where R: "showInstallPrompt_resume outcome s = (r, s', effs)"
      by (cases "showInstallPrompt_resume outcome s") auto
    with resume_deferredPrompt[of outcome s] have "deferredPrompt s' = None" by simp
    then have "deferredPrompt (fst (settle e outcome ps (s', tr @ effs @ [Returned r]))) = None"
      by (rule settle_deferredPrompt_None)
    with True R show ?thesis by simp
  next
    case False
    with Cons show ?thesis by simp
  qed
qed

lemma handle_inv_resume: "handle_inv (fst (snd (showInstallPrompt_resume outcome s)))"
  by (simp add: handle_inv_def showInstallPrompt_resume_def Let_def)

lemma handle_inv_settle:
  "handle_inv s \<Longrightarrow> handle_inv (fst (settle e outcome ps (s, tr)))"
proof (induction ps arbitrary: s tr)
  case Nil
  then show ?case by simp
next
  case (Cons p ps)
  show ?case
  proof (cases "p = e")
    case True
    obtain r s' effs where R: "showInstallPrompt_resume outcome s = (r, s', effs)"
      by (cases "showInstallPrompt_resume outcome s") auto
    with handle_inv_resume[of outcome s] have "handle_inv s'" by simp
    then have "handle_inv (fst (settle e outcome ps (s', tr @ effs @ [Returned r])))"
      by (rule Cons.IH)
    with True R show ?thesis by simp
  next
    case False
    with Cons show ?thesis by simp
  qed
qed

lemma settle_not_both:
  "\<not> installed_and_installable s \<Longrightarrow>
   \<not> installed_and_installable (fst (settle e outcome ps (s, tr)))"
proof (induction ps arbitrary: s tr)
  case Nil
  then show ?case by simp
next
  case (Cons p ps)
  show ?case
  proof (cases "p = e")
    case True
    obtain r s' effs where R: "showInstallPrompt_resume outcome s = (r, s', effs)"
      by (cases "showInstallPrompt_resume outcome s") auto
    with resume_canInstall[of outcome s] have "\<not> installed_and_installable s'"
      by (simp add: installed_and_installable_def)
    then have "\<not> installed_and_installable (fst (settle e outcome ps (s', tr @ effs @ [Returned r])))"
      by (rule Cons.IH)
    with True R show ?thesis by simp
  next
    case False
    with Cons show ?thesis by simp
  qed
qed

subsection \<open>No stored event, no prompt\<close>

lemma call_without_handle:
  "deferredPrompt (service sys) = None \<Longrightarrow>
   step ShowInstallPrompt sys =
     sys\<lparr>effects := effects sys @ [ConsoleLog NoPromptAvailable, Returned False]\<rparr>"
  by (simp add: showInstallPrompt_def)

lemma step_keeps_None:
  "deferredPrompt (service sys) = None \<Longrightarrow> \<not> is_offer ev \<Longrightarrow>
   deferredPrompt (service (step ev sys)) = None"
proof (cases ev)
  case (UserChoice e outcome)
  assume "deferredPrompt (service sys) = None"
  then have "deferredPrompt (fst (settle e outcome (awaiting sys) (service sys, effects sys))) = None"
    by (rule settle_deferredPrompt_None)
  with UserChoice show ?thesis by (simp add: service_step del: step.simps)
qed (auto simp: onAppInstalled_def showInstallPrompt_def Let_def)

lemma run_keeps_None:
  "deferredPrompt (service sys) = None \<Longrightarrow> list_all (\<lambda>ev. \<not> is_offer ev) evs \<Longrightarrow>
   deferredPrompt (service (run evs sys)) = None"
  by (induction evs arbitrary: sys) (auto simp: step_keeps_None)

lemma step_keeps_awaiting:
  "e \<in> set (awaiting sys) \<Longrightarrow> \<not> resolves e ev \<Longrightarrow> e \<in> set (awaiting (step ev sys))"
  by (cases ev) (auto split: prod.splits prompt_step.splits)

lemma run_keeps_awaiting:
  "e \<in> set (awaiting sys) \<Longrightarrow> list_all (\<lambda>ev. \<not> resolves e ev) evs \<Longrightarrow>
   e \<in> set (awaiting (run evs sys))"
  by (induction evs arbitrary: sys) (auto simp: step_keeps_awaiting)

lemma userChoice_clears:
  "e \<in> set (awaiting sys) \<Longrightarrow>
   deferredPrompt (service (step (UserChoice e outcome) sys)) = None"
  by (simp add: service_step settle_member_deferredPrompt del: step.simps)

subsection \<open>The stored event and \<open>canInstall\<close> move together\<close>

lemma handle_inv_new: "handle_inv (PwaInstallService_new w)"
  by (simp add: handle_inv_def PwaInstallService_new_def checkIfInstalled_def
      PwaInstallService_fields_def signal_def)

lemma handle_inv_offer: "handle_inv (fst (onBeforeInstallPrompt e s))"
  by (simp add: handle_inv_def onBeforeInstallPrompt_def Let_def)

lemma handle_inv_installed: "handle_inv (fst (onAppInstalled s))"
  by (simp add: handle_inv_def onAppInstalled_def Let_def)

lemma handle_inv_step: "handle_inv (service sys) \<Longrightarrow> handle_inv (service (step ev sys))"
  by (cases ev)
     (simp_all add: service_step handle_inv_offer handle_inv_installed handle_inv_settle
        del: step.simps)

lemma handle_inv_run: "handle_inv (service sys) \<Longrightarrow> handle_inv (service (run evs sys))"
  by (induction evs arbitrary: sys) (simp_all add: handle_inv_step del: step.simps)

lemma handle_inv_boot: "handle_inv (service (boot w))"
  by (simp add: boot_def handle_inv_new)

subsection \<open>Installed and installable\<close>

lemma step_not_both:
  assumes "\<not> installed_and_installable (service sys)"
    and "is_offer ev \<longrightarrow> \<not> current (isInstalled (service sys))"
  shows "\<not> installed_and_installable (service (step ev sys))"
proof (cases ev)
  case (BeforeInstallPrompt e)
  with assms show ?thesis
    by (simp add: service_step installed_and_installable_def onBeforeInstallPrompt_def Let_def
        del: step.simps)
next
  case AppInstalled
  then show ?thesis
    by (simp add: service_step installed_and_installable_def onAppInstalled_def Let_def
        del: step.simps)
next
  case ShowInstallPrompt
  with assms show ?thesis by (simp add: service_step del: step.simps)
next
  case (UserChoice e outcome)
  from assms(1)
  have "\<not> installed_and_installable (fst (settle e outcome (awaiting sys) (service sys, effects sys)))"
    by (rule settle_not_both)
  with UserChoice show ?thesis by (simp add: service_step del: step.simps)
qed

lemma run_not_both:
  "\<not> installed_and_installable (service sys) \<Longrightarrow> offers_while_not_installed evs sys \<Longrightarrow>
   \<not> installed_and_installable (service (run evs sys))"
proof (induction evs arbitrary: sys)
  case Nil
  then show ?case by simp
next
  case (Cons ev evs)
  from Cons.prems have "\<not> installed_and_installable (service (step ev sys))"
    by (intro step_not_both) simp_all
  moreover from Cons.prems have "offers_while_not_installed evs (step ev sys)" by simp
  ultimately show ?case using Cons.IH by (simp del: step.simps)
qed

lemma offers_take:
  "offers_while_not_installed evs sys \<Longrightarrow> offers_while_not_installed (take n evs) sys"
proof (induction evs arbitrary: sys n)
  case Nil
  then show ?case by simp
next
  case (Cons ev evs)
  then show ?case by (cases n) (simp_all del: step.simps)
qed

lemma boot_not_both: "\<not> installed_and_installable (service (boot w))"
  by (simp add: installed_and_installable_def boot_def PwaInstallService_new_def
      checkIfInstalled_def PwaInstallService_fields_def signal_def)

section \<open>The banner: the derivation and the memoised cell\<close>

lemma dismiss_sets_flag:
  "getItem (fst (dismiss ls)) ''install-banner-dismissed'' = Some ''true''"
  by (simp add: dismiss_def getItem_def setItem_def)

lemma dismiss_idempotent: "fst (dismiss (fst (dismiss ls))) = fst (dismiss ls)"
  by (simp add: dismiss_def setItem_def)

text \<open>Whenever the derivation runs after \<^verbatim>\<open>dismiss()\<close>, it gives false.\<close>

lemma computation_false_after_dismiss: "\<not> showBanner_computation s (fst (dismiss ls))"
  by (simp add: showBanner_computation_def dismiss_sets_flag)

text \<open>A read runs the derivation when the cell has never been read or a signal it read
  has changed; otherwise it answers what it remembered, whatever the storage holds now.\<close>

lemma showBanner_recomputed:
  "showBanner_node c = None \<or> (\<exists>n. showBanner_node c = Some n \<and> producers_changed s n) \<Longrightarrow>
   fst (showBanner c s ls) = showBanner_computation s ls"
  by (auto simp: showBanner_def recompute_def Let_def)

lemma showBanner_remembered:
  "showBanner_node c = Some n \<Longrightarrow> \<not> producers_changed s n \<Longrightarrow>
   showBanner c s ls = (cached n, c)"
  by (simp add: showBanner_def)

text \<open>The derivation has the intended truth table, and a cell that has never been read
  answers with it.\<close>

lemma showBanner_computation_iff:
  "showBanner_computation s ls =
     (\<not> current (isInstalled s) \<and> current (canInstall s) \<and>
      getItem ls ''install-banner-dismissed'' \<noteq> Some ''true'')"
  by (simp add: showBanner_computation_def Let_def)

lemma showBanner_first_read:
  "fst (showBanner InstallBannerComponent_new s ls) = showBanner_computation s ls"
  by (simp add: showBanner_def InstallBannerComponent_new_def recompute_def Let_def)

section \<open>The notification service\<close>

lemma subscribe_keeps_service: "fst (subscribeToNotifications this env k) = this"
  by (simp add: subscribeToNotifications_def split: prod.splits sum.splits)

section \<open>The claims\<close>

text \<open>
  C1, at the input where the code fails it. \<^verbatim>\<open>showBanner\<close> is the memoised cell, and
  what a read of it answers is not a function of the three booleans. An offer has arrived
  and the banner has been rendered (the cell is read: true); the user presses the dismiss
  button. Now \<^verbatim>\<open>isInstalled\<close> is false, \<^verbatim>\<open>canInstall\<close> is true and the stored flag is
  \<^verbatim>\<open>'true'\<close>, the combination for which the decision has to be false, and the cell
  answers true, while the cell of a new component, read with the very same service and
  store, answers false. The derivation inside the cell has the right truth table
  (\<open>showBanner_computation_iff\<close>); the cell does not run it.
\<close>

theorem showBanner_ignores_stored_flag:
  "(let s = fst (onBeforeInstallPrompt (BeforeInstallPromptEvent 0)
                  (PwaInstallService_new
                     \<lparr>displayModeStandalone = False, navigatorStandalone = None\<rparr>));
        (shown_before, c1) = showBanner InstallBannerComponent_new s Map.empty;
        ls1 = fst (dismiss Map.empty);
        (shown_after, c2) = showBanner c1 s ls1;
        (shown_by_new_component, c') = showBanner InstallBannerComponent_new s ls1
    in \<not> current (isInstalled s) \<and>
       current (canInstall s) \<and>
       getItem ls1 ''install-banner-dismissed'' = Some ''true'' \<and>
       shown_after \<and>
       shown_after \<noteq>
         (\<not> current (isInstalled s) \<and> current (canInstall s) \<and>
          getItem ls1 ''install-banner-dismissed'' \<noteq> Some ''true'') \<and>
       \<not> shown_by_new_component)"
  by (simp add: onBeforeInstallPrompt_def PwaInstallService_new_def checkIfInstalled_def
      PwaInstallService_fields_def signal_def set_signal_def showBanner_def
      InstallBannerComponent_new_def recompute_def producers_changed_def
      showBanner_computation_def dismiss_def getItem_def setItem_def Let_def)

text \<open>
  C2, as amended. The claim as written fails: the \<^verbatim>\<open>beforeinstallprompt\<close> listener sets
  \<^verbatim>\<open>canInstall\<close> to true without looking at \<^verbatim>\<open>isInstalled\<close>, so an offer delivered
  to an installed application leaves both true. What holds: in every sequence of turns
  (offers, installed events, calls of \<^verbatim>\<open>showInstallPrompt\<close>, resolutions of
  \<^verbatim>\<open>userChoice\<close>) in which no offer is delivered while \<^verbatim>\<open>isInstalled\<close> is true,
  \<^verbatim>\<open>isInstalled\<close> and \<^verbatim>\<open>canInstall\<close> are not both true after any turn.
\<close>

theorem never_both_when_offers_precede_installation:
  "offers_while_not_installed evs (boot w) \<Longrightarrow>
   \<not> (current (isInstalled (service (run (take n evs) (boot w)))) \<and>
      current (canInstall (service (run (take n evs) (boot w)))))"
  using run_not_both[OF boot_not_both offers_take, of evs w n]
  by (simp add: installed_and_installable_def)

theorem never_both_when_offers_precede_installation_witness:
  "offers_while_not_installed
     [BeforeInstallPrompt (BeforeInstallPromptEvent 0), ShowInstallPrompt,
      UserChoice (BeforeInstallPromptEvent 0) ''accepted'', AppInstalled]
     (boot \<lparr>displayModeStandalone = False, navigatorStandalone = None\<rparr>) \<and>
   \<not> (current (isInstalled (service (run (take 3
         [BeforeInstallPrompt (BeforeInstallPromptEvent 0), ShowInstallPrompt,
          UserChoice (BeforeInstallPromptEvent 0) ''accepted'', AppInstalled])
         (boot \<lparr>displayModeStandalone = False, navigatorStandalone = None\<rparr>)))) \<and>
      current (canInstall (service (run (take 3
         [BeforeInstallPrompt (BeforeInstallPromptEvent 0), ShowInstallPrompt,
          UserChoice (BeforeInstallPromptEvent 0) ''accepted'', AppInstalled])
         (boot \<lparr>displayModeStandalone = False, navigatorStandalone = None\<rparr>)))))"
  using never_both_when_offers_precede_installation
    [of "[BeforeInstallPrompt (BeforeInstallPromptEvent 0), ShowInstallPrompt,
          UserChoice (BeforeInstallPromptEvent 0) ''accepted'', AppInstalled]"
        "\<lparr>displayModeStandalone = False, navigatorStandalone = None\<rparr>" 3]
  by (simp add: boot_def PwaInstallService_new_def checkIfInstalled_def
      PwaInstallService_fields_def signal_def set_signal_def onBeforeInstallPrompt_def
      onAppInstalled_def showInstallPrompt_def showInstallPrompt_resume_def Let_def)

text \<open>
  C2, the claim as written, refuted twice: an application launched standalone that
  receives an offer; and an application in the browser whose prompt was accepted and
  that receives a new offer afterwards. In both, \<^verbatim>\<open>isInstalled\<close> and \<^verbatim>\<open>canInstall\<close>
  are true when the turn is over.
\<close>

theorem installed_and_installable_counterexample:
  "(let s = service (run [BeforeInstallPrompt (BeforeInstallPromptEvent 0)]
                (boot \<lparr>displayModeStandalone = True, navigatorStandalone = None\<rparr>))
    in current (isInstalled s) \<and> current (canInstall s)) \<and>
   (let s = service (run [BeforeInstallPrompt (BeforeInstallPromptEvent 0), ShowInstallPrompt,
                          UserChoice (BeforeInstallPromptEvent 0) ''accepted'',
                          BeforeInstallPrompt (BeforeInstallPromptEvent 1)]
                (boot \<lparr>displayModeStandalone = False, navigatorStandalone = None\<rparr>))
    in current (isInstalled s) \<and> current (canInstall s))"
  by (simp add: boot_def PwaInstallService_new_def checkIfInstalled_def
      PwaInstallService_fields_def signal_def onBeforeInstallPrompt_def showInstallPrompt_def
      showInstallPrompt_resume_def Let_def)

text \<open>
  C3. Two calls of \<^verbatim>\<open>showInstallPrompt\<close> in succession: the first has returned before
  the second is made. Either the first found no stored event and returned at once, or it
  suspended on the stored event \<open>e\<close>, other turns ran (\<open>during\<close>, none of them the
  resolution of \<open>e\<close>), and the resolution of \<open>e\<close> resumed it. Whatever happens
  between the two calls, as long as it is not an offer, the second call returns
  \<^verbatim>\<open>false\<close> through the no-event branch: it logs that no prompt is available, calls
  no \<^verbatim>\<open>prompt()\<close>, suspends nothing and changes no state.
\<close>

theorem second_call_unavailable:
  assumes between: "list_all (\<lambda>ev. \<not> is_offer ev) between"
  shows "(deferredPrompt (service sys) = None \<longrightarrow>
           (let sys1 = run (ShowInstallPrompt # between) sys
            in step ShowInstallPrompt sys1 =
               sys1\<lparr>effects := effects sys1 @ [ConsoleLog NoPromptAvailable, Returned False]\<rparr>)) \<and>
         (deferredPrompt (service sys) = Some e \<and> list_all (\<lambda>ev. \<not> resolves e ev) during \<longrightarrow>
           (let sys1 = run (ShowInstallPrompt # during @ UserChoice e outcome # between) sys
            in step ShowInstallPrompt sys1 =
               sys1\<lparr>effects := effects sys1 @ [ConsoleLog NoPromptAvailable, Returned False]\<rparr>))"
proof (intro conjI impI)
  assume "deferredPrompt (service sys) = None"
  then have "deferredPrompt (service (step ShowInstallPrompt sys)) = None"
    by (simp add: call_without_handle del: step.simps)
  then have "deferredPrompt (service (run between (step ShowInstallPrompt sys))) = None"
    using between by (rule run_keeps_None)
  then show "let sys1 = run (ShowInstallPrompt # between) sys
             in step ShowInstallPrompt sys1 =
                sys1\<lparr>effects := effects sys1 @ [ConsoleLog NoPromptAvailable, Returned False]\<rparr>"
    by (simp add: call_without_handle Let_def del: step.simps)
next
  assume A: "deferredPrompt (service sys) = Some e \<and> list_all (\<lambda>ev. \<not> resolves e ev) during"
  then have "e \<in> set (awaiting (step ShowInstallPrompt sys))"
    by (simp add: showInstallPrompt_def)
  then have "e \<in> set (awaiting (run during (step ShowInstallPrompt sys)))"
    using A by (simp add: run_keeps_awaiting del: step.simps)
  then have "deferredPrompt (service (step (UserChoice e outcome)
               (run during (step ShowInstallPrompt sys)))) = None"
    by (rule userChoice_clears)
  then have "deferredPrompt (service (run between (step (UserChoice e outcome)
               (run during (step ShowInstallPrompt sys))))) = None"
    using between by (rule run_keeps_None)
  then show "let sys1 = run (ShowInstallPrompt # during @ UserChoice e outcome # between) sys
             in step ShowInstallPrompt sys1 =
                sys1\<lparr>effects := effects sys1 @ [ConsoleLog NoPromptAvailable, Returned False]\<rparr>"
    by (simp add: call_without_handle Let_def run_append del: step.simps)
qed

theorem second_call_unavailable_witness:
  "list_all (\<lambda>ev. \<not> is_offer ev) [AppInstalled] \<and>
   deferredPrompt (service (step (BeforeInstallPrompt (BeforeInstallPromptEvent 0))
      (boot \<lparr>displayModeStandalone = False, navigatorStandalone = None\<rparr>))) =
     Some (BeforeInstallPromptEvent 0) \<and>
   list_all (\<lambda>ev. \<not> resolves (BeforeInstallPromptEvent 0) ev)
     [BeforeInstallPrompt (BeforeInstallPromptEvent 1)] \<and>
   (let sys1 = run (ShowInstallPrompt # [BeforeInstallPrompt (BeforeInstallPromptEvent 1)] @
                    UserChoice (BeforeInstallPromptEvent 0) ''dismissed'' # [AppInstalled])
                 (step (BeforeInstallPrompt (BeforeInstallPromptEvent 0))
                    (boot \<lparr>displayModeStandalone = False, navigatorStandalone = None\<rparr>))
    in step ShowInstallPrompt sys1 =
       sys1\<lparr>effects := effects sys1 @ [ConsoleLog NoPromptAvailable, Returned False]\<rparr>)"
  using second_call_unavailable
    [of "[AppInstalled]"
        "step (BeforeInstallPrompt (BeforeInstallPromptEvent 0))
           (boot \<lparr>displayModeStandalone = False, navigatorStandalone = None\<rparr>)"
        "BeforeInstallPromptEvent 0"
        "[BeforeInstallPrompt (BeforeInstallPromptEvent 1)]" "''dismissed''"]
  by (simp add: boot_def PwaInstallService_new_def checkIfInstalled_def
      PwaInstallService_fields_def signal_def set_signal_def onBeforeInstallPrompt_def
      onAppInstalled_def showInstallPrompt_def showInstallPrompt_resume_def Let_def)

text \<open>
  C4. When the part of \<^verbatim>\<open>showInstallPrompt\<close> after the \<^verbatim>\<open>await\<close> runs, it returns
  \<^verbatim>\<open>true\<close> exactly when the outcome is \<^verbatim>\<open>'accepted'\<close>, and then the state it
  returns with has \<^verbatim>\<open>isInstalled\<close> true, \<^verbatim>\<open>canInstall\<close> false and no stored event:
  the service does this itself, no \<^verbatim>\<open>appinstalled\<close> event is involved.
\<close>

theorem accepted_marks_installed:
  "(case showInstallPrompt_resume outcome s of
      (r, s', effs) \<Rightarrow>
        (r \<longleftrightarrow> outcome = ''accepted'') \<and>
        (r \<longrightarrow> current (isInstalled s') \<and> \<not> current (canInstall s') \<and>
               deferredPrompt s' = None))"
  by (simp add: showInstallPrompt_resume_def Let_def)

theorem accepted_marks_installed_witness:
  "(case showInstallPrompt_resume ''accepted''
           (fst (onBeforeInstallPrompt (BeforeInstallPromptEvent 0)
              (PwaInstallService_new \<lparr>displayModeStandalone = False, navigatorStandalone = None\<rparr>))) of
      (r, s', effs) \<Rightarrow>
        r \<and> current (isInstalled s') \<and> \<not> current (canInstall s') \<and> deferredPrompt s' = None)"
  using accepted_marks_installed
    [of "''accepted''"
        "fst (onBeforeInstallPrompt (BeforeInstallPromptEvent 0)
           (PwaInstallService_new \<lparr>displayModeStandalone = False, navigatorStandalone = None\<rparr>))"]
  by (simp add: showInstallPrompt_resume_def Let_def)

text \<open>
  C5. When the outcome is not \<^verbatim>\<open>'accepted'\<close> (the platform's other outcome is
  \<^verbatim>\<open>'dismissed'\<close>), the part after the \<^verbatim>\<open>await\<close> returns \<^verbatim>\<open>false\<close> and the state
  it leaves is the state it found with \<^verbatim>\<open>canInstall\<close> set to false and the stored
  event dropped: \<^verbatim>\<open>isInstalled\<close>, value and version, is untouched.
\<close>

theorem dismissed_clears_canInstall_only:
  "outcome \<noteq> ''accepted'' \<Longrightarrow>
   showInstallPrompt_resume outcome s =
     (False, s\<lparr>canInstall := set_signal False (canInstall s), deferredPrompt := None\<rparr>,
      [ConsoleLog (UserChoiceLogged False)])"
  by (simp add: showInstallPrompt_resume_def Let_def)

theorem dismissed_clears_canInstall_only_witness:
  "''dismissed'' \<noteq> ''accepted'' \<and>
   showInstallPrompt_resume ''dismissed''
     \<lparr>isInstalled = \<lparr>current = False, version = 0\<rparr>,
      canInstall = \<lparr>current = True, version = 1\<rparr>,
      deferredPrompt = Some (BeforeInstallPromptEvent 0)\<rparr> =
     (False,
      \<lparr>isInstalled = \<lparr>current = False, version = 0\<rparr>,
       canInstall = \<lparr>current = False, version = 2\<rparr>,
       deferredPrompt = None\<rparr>,
      [ConsoleLog (UserChoiceLogged False)])"
  using dismissed_clears_canInstall_only
    [of "''dismissed''"
        "\<lparr>isInstalled = \<lparr>current = False, version = 0\<rparr>,
          canInstall = \<lparr>current = True, version = 1\<rparr>,
          deferredPrompt = Some (BeforeInstallPromptEvent 0)\<rparr>"]
  by (simp add: set_signal_def)

text \<open>
  C6, as amended. \<^verbatim>\<open>showInstallPrompt\<close> returns a boolean, not one of three outcomes.
  Called while no event is stored it returns \<^verbatim>\<open>false\<close> at once, as a value: nothing is
  raised, \<^verbatim>\<open>prompt()\<close> is not called, the state is unchanged.
\<close>

theorem no_handle_resolves_false:
  "deferredPrompt s = None \<Longrightarrow>
   showInstallPrompt s = (Resolved False, s, [ConsoleLog NoPromptAvailable])"
  by (simp add: showInstallPrompt_def)

theorem no_handle_resolves_false_witness:
  "deferredPrompt (PwaInstallService_new
     \<lparr>displayModeStandalone = False, navigatorStandalone = None\<rparr>) = None \<and>
   showInstallPrompt (PwaInstallService_new
     \<lparr>displayModeStandalone = False, navigatorStandalone = None\<rparr>) =
     (Resolved False,
      PwaInstallService_new \<lparr>displayModeStandalone = False, navigatorStandalone = None\<rparr>,
      [ConsoleLog NoPromptAvailable])"
  using no_handle_resolves_false
    [of "PwaInstallService_new \<lparr>displayModeStandalone = False, navigatorStandalone = None\<rparr>"]
  by (simp add: PwaInstallService_new_def checkIfInstalled_def PwaInstallService_fields_def)

text \<open>
  C6, the claim as written, refuted: the value a caller gets when no event is stored is
  the value it gets when the user dismisses the dialog. The first call below is made on a
  new service; the second on a service holding an event, whose prompt is then dismissed.
  Both deliver \<^verbatim>\<open>false\<close>.
\<close>

theorem unavailable_is_dismissed_counterexample:
  "(let s0 = PwaInstallService_new \<lparr>displayModeStandalone = False, navigatorStandalone = None\<rparr>;
        s1 = fst (onBeforeInstallPrompt (BeforeInstallPromptEvent 0) s0)
    in fst (showInstallPrompt s0) = Resolved False \<and>
       fst (showInstallPrompt s1) = Awaiting (BeforeInstallPromptEvent 0) \<and>
       Resolved (fst (showInstallPrompt_resume ''dismissed'' s1)) = fst (showInstallPrompt s0))"
  by (simp add: PwaInstallService_new_def checkIfInstalled_def PwaInstallService_fields_def
      onBeforeInstallPrompt_def showInstallPrompt_def showInstallPrompt_resume_def Let_def)

text \<open>
  C7. Whenever \<^verbatim>\<open>requestPermission\<close> resolves \<^verbatim>\<open>false\<close> (the permission is denied or
  left at its default, or the browser has no \<^verbatim>\<open>Notification\<close>),
  \<^verbatim>\<open>subscribeToNotifications\<close> calls \<^verbatim>\<open>requestSubscription\<close> for no key, obtains and
  reports no subscription, and leaves the service as it was.
\<close>

theorem no_subscribe_without_permission:
  "fst (requestPermission env) = Inr False \<Longrightarrow>
   fst (subscribeToNotifications this env vapidPublicKey) = this \<and>
   (\<forall>k. RequestSubscription k \<notin> set (snd (subscribeToNotifications this env vapidPublicKey))) \<and>
   (\<forall>sub. Console (SubscriptionSucceeded sub) \<notin>
            set (snd (subscribeToNotifications this env vapidPublicKey)))"
  by (auto simp: subscribeToNotifications_def requestPermission_def
      split: if_splits sum.splits prod.splits)

theorem no_subscribe_without_permission_witness:
  "fst (requestPermission
     \<lparr>notificationInWindow = True, permissionResponse = Inr Denied,
      subscriptionResponse = (\<lambda>k. Inr (PushSubscription ''endpoint''))\<rparr>) = Inr False \<and>
   subscribeToNotifications \<lparr>swPush = \<lparr>isEnabled = True\<rparr>\<rparr>
     \<lparr>notificationInWindow = True, permissionResponse = Inr Denied,
      subscriptionResponse = (\<lambda>k. Inr (PushSubscription ''endpoint''))\<rparr> ''key'' =
     (\<lparr>swPush = \<lparr>isEnabled = True\<rparr>\<rparr>, [NotificationRequestPermission, Console UserRejected]) \<and>
   (\<forall>k. RequestSubscription k \<notin> set (snd (subscribeToNotifications
      \<lparr>swPush = \<lparr>isEnabled = True\<rparr>\<rparr>
      \<lparr>notificationInWindow = True, permissionResponse = Inr Denied,
       subscriptionResponse = (\<lambda>k. Inr (PushSubscription ''endpoint''))\<rparr> ''key'')))"
  using no_subscribe_without_permission
    [of "\<lparr>notificationInWindow = True, permissionResponse = Inr Denied,
          subscriptionResponse = (\<lambda>k. Inr (PushSubscription ''endpoint''))\<rparr>"
        "\<lparr>swPush = \<lparr>isEnabled = True\<rparr>\<rparr>" "''key''"]
  by (simp add: subscribeToNotifications_def requestPermission_def)

text \<open>
  C8, at the input where the code fails it. An offer has arrived, the banner is rendered
  (the cell is read: true) and the user presses the dismiss button. The flag is in the
  store and the derivation, were it run, would give false; but \<^verbatim>\<open>localStorage\<close> is not
  a signal, no signal has changed, and the next read of the cell answers true from memory.
  A further offer does not help (\<^verbatim>\<open>set(true)\<close> on a signal that is true changes
  nothing). Only a change of a signal, here \<^verbatim>\<open>appinstalled\<close>, makes the cell run the
  derivation again.
\<close>

theorem dismissed_banner_still_shown:
  "(let s = fst (onBeforeInstallPrompt (BeforeInstallPromptEvent 0)
                  (PwaInstallService_new
                     \<lparr>displayModeStandalone = False, navigatorStandalone = None\<rparr>));
        (shown_before, c1) = showBanner InstallBannerComponent_new s Map.empty;
        ls1 = fst (dismiss Map.empty);
        (shown_after, c2) = showBanner c1 s ls1;
        s' = fst (onBeforeInstallPrompt (BeforeInstallPromptEvent 1) s);
        (shown_later, c3) = showBanner c2 s' ls1;
        s'' = fst (onAppInstalled s');
        (shown_finally, c4) = showBanner c3 s'' ls1
    in shown_before \<and>
       getItem ls1 ''install-banner-dismissed'' = Some ''true'' \<and>
       \<not> showBanner_computation s ls1 \<and>
       shown_after \<and>
       current (canInstall s') \<and> \<not> showBanner_computation s' ls1 \<and>
       shown_later \<and>
       \<not> shown_finally)"
  by (simp add: onBeforeInstallPrompt_def onAppInstalled_def PwaInstallService_new_def
      checkIfInstalled_def PwaInstallService_fields_def signal_def set_signal_def
      showBanner_def InstallBannerComponent_new_def recompute_def producers_changed_def
      showBanner_computation_def dismiss_def getItem_def setItem_def Let_def)

text \<open>
  C9, as amended. When \<^verbatim>\<open>subscribeToNotifications\<close> succeeds (the transport is enabled,
  the permission is granted, \<^verbatim>\<open>requestSubscription\<close> resolves), it has asked for the
  permission, called \<^verbatim>\<open>requestSubscription\<close> once with the key it was given, and written
  the subscription it got to the console. The service is left as it was: the class has
  no field for a subscription.
\<close>

theorem successful_subscription_is_logged:
  "isEnabled (swPush this) \<Longrightarrow> notificationInWindow env \<Longrightarrow>
   permissionResponse env = Inr Granted \<Longrightarrow>
   subscriptionResponse env vapidPublicKey = Inr subscription \<Longrightarrow>
   subscribeToNotifications this env vapidPublicKey =
     (this, [NotificationRequestPermission, RequestSubscription vapidPublicKey,
             Console (SubscriptionSucceeded subscription)])"
  by (simp add: subscribeToNotifications_def requestPermission_def)

theorem successful_subscription_is_logged_witness:
  "subscribeToNotifications \<lparr>swPush = \<lparr>isEnabled = True\<rparr>\<rparr>
     \<lparr>notificationInWindow = True, permissionResponse = Inr Granted,
      subscriptionResponse = (\<lambda>k. Inr (PushSubscription (''endpoint-for-'' @ k)))\<rparr> ''key'' =
     (\<lparr>swPush = \<lparr>isEnabled = True\<rparr>\<rparr>,
      [NotificationRequestPermission, RequestSubscription ''key'',
       Console (SubscriptionSucceeded (PushSubscription ''endpoint-for-key''))])"
  using successful_subscription_is_logged
    [of "\<lparr>swPush = \<lparr>isEnabled = True\<rparr>\<rparr>"
        "\<lparr>notificationInWindow = True, permissionResponse = Inr Granted,
          subscriptionResponse = (\<lambda>k. Inr (PushSubscription (''endpoint-for-'' @ k)))\<rparr>"
        "''key''" "PushSubscription ''endpoint-for-key''"]
  by simp

text \<open>
  C9, the claim as written, refuted: two successful calls that obtain different
  subscriptions leave the same service state, the state before the call. Nothing of the
  subscription is in it.
\<close>

theorem subscription_not_retained_counterexample:
  "(let this = \<lparr>swPush = \<lparr>isEnabled = True\<rparr>\<rparr>;
        env1 = \<lparr>notificationInWindow = True, permissionResponse = Inr Granted,
                subscriptionResponse = (\<lambda>k. Inr (PushSubscription ''endpoint-1''))\<rparr>;
        env2 = \<lparr>notificationInWindow = True, permissionResponse = Inr Granted,
                subscriptionResponse = (\<lambda>k. Inr (PushSubscription ''endpoint-2''))\<rparr>;
        (after1, effs1) = subscribeToNotifications this env1 ''key'';
        (after2, effs2) = subscribeToNotifications this env2 ''key''
    in Console (SubscriptionSucceeded (PushSubscription ''endpoint-1'')) \<in> set effs1 \<and>
       Console (SubscriptionSucceeded (PushSubscription ''endpoint-2'')) \<in> set effs2 \<and>
       after1 = after2 \<and> after1 = this)"
  by (simp add: subscribeToNotifications_def requestPermission_def)

text \<open>
  C10. \<^verbatim>\<open>canInstall\<close> is true exactly when an event is stored: this holds of a new
  service, every turn of the event loop keeps it, so it holds after every sequence of
  turns; and there \<^verbatim>\<open>showInstallPrompt\<close> calls \<^verbatim>\<open>prompt()\<close> only on the event that is
  stored, and when none is stored returns \<^verbatim>\<open>false\<close> without a call of \<^verbatim>\<open>prompt()\<close>.
\<close>

theorem canInstall_iff_event_stored:
  "handle_inv (service (boot w)) \<and>
   (handle_inv (service sys) \<longrightarrow> handle_inv (service (step ev sys))) \<and>
   (let s = service (run evs (boot w))
    in handle_inv s \<and>
       (case showInstallPrompt s of
          (Awaiting e, s', effs) \<Rightarrow>
            deferredPrompt s = Some e \<and> current (canInstall s) \<and> effs = [Prompt e]
        | (Resolved r, s', effs) \<Rightarrow>
            deferredPrompt s = None \<and> \<not> current (canInstall s) \<and> \<not> r \<and>
            effs = [ConsoleLog NoPromptAvailable]))"
proof -
  have reachable: "handle_inv (service (run evs (boot w)))"
    using handle_inv_boot by (rule handle_inv_run)
  have "case showInstallPrompt s of
          (Awaiting e, s', effs) \<Rightarrow>
            deferredPrompt s = Some e \<and> current (canInstall s) \<and> effs = [Prompt e]
        | (Resolved r, s', effs) \<Rightarrow>
            deferredPrompt s = None \<and> \<not> current (canInstall s) \<and> \<not> r \<and>
            effs = [ConsoleLog NoPromptAvailable]" if "handle_inv s" for s
    using that by (simp add: handle_inv_def showInstallPrompt_def split: option.splits)
  with reachable show ?thesis
    by (simp add: Let_def handle_inv_boot handle_inv_step del: step.simps)
qed

theorem canInstall_iff_event_stored_witness:
  "handle_inv (service (boot \<lparr>displayModeStandalone = False, navigatorStandalone = None\<rparr>)) \<and>
   handle_inv (service (step (BeforeInstallPrompt (BeforeInstallPromptEvent 0))
     (boot \<lparr>displayModeStandalone = False, navigatorStandalone = None\<rparr>))) \<and>
   (let s = service (run [BeforeInstallPrompt (BeforeInstallPromptEvent 0)]
                (boot \<lparr>displayModeStandalone = False, navigatorStandalone = None\<rparr>))
    in handle_inv s \<and> current (canInstall s) \<and>
       showInstallPrompt s =
         (Awaiting (BeforeInstallPromptEvent 0), s, [Prompt (BeforeInstallPromptEvent 0)]))"
  using canInstall_iff_event_stored
    [of "\<lparr>displayModeStandalone = False, navigatorStandalone = None\<rparr>"
        "boot \<lparr>displayModeStandalone = False, navigatorStandalone = None\<rparr>"
        "BeforeInstallPrompt (BeforeInstallPromptEvent 0)"
        "[BeforeInstallPrompt (BeforeInstallPromptEvent 0)]"]
  by (simp add: handle_inv_def boot_def PwaInstallService_new_def checkIfInstalled_def
      PwaInstallService_fields_def signal_def onBeforeInstallPrompt_def showInstallPrompt_def
      Let_def)

end
